theory Spec2Isabelle
  imports Main
begin

section \<open>The Go library functions the handler calls\<close>

text \<open>
  Go strings are byte sequences; they are modelled as \<open>string\<close> (a list of 8-bit
  characters). The functions of this section are the parts of Go's standard library
  (\<open>strings\<close>, \<open>strconv\<close>, \<open>net/http\<close>) that \<open>download.go\<close> calls, written after
  the library's documented behaviour. Logging (\<open>log.Printf\<close>, \<open>log.Println\<close>) only
  writes to the process log and is left out of the model.
\<close>

subsection \<open>Package strings\<close>

definition HasPrefix :: "string \<Rightarrow> string \<Rightarrow> bool" where
  "HasPrefix s p = (take (length p) s = p)"

definition HasSuffix :: "string \<Rightarrow> string \<Rightarrow> bool" where
  "HasSuffix s p = (length p \<le> length s \<and> drop (length s - length p) s = p)"

definition TrimPrefix :: "string \<Rightarrow> string \<Rightarrow> string" where
  "TrimPrefix s p = (if HasPrefix s p then drop (length p) s else s)"

definition TrimSuffix :: "string \<Rightarrow> string \<Rightarrow> string" where
  "TrimSuffix s p = (if HasSuffix s p then take (length s - length p) s else s)"

text \<open>\<open>strings.Index\<close>: the index of the first instance of \<open>sep\<close> in \<open>s\<close>, or -1.\<close>

fun Index :: "string \<Rightarrow> string \<Rightarrow> int" where
  "Index [] sep = (if sep = [] then 0 else -1)"
| "Index (c # cs) sep =
     (if HasPrefix (c # cs) sep then 0
      else (let i = Index cs sep in if i < 0 then -1 else i + 1))"

text \<open>\<open>strings.LastIndex\<close>: the index of the last instance of \<open>sep\<close> in \<open>s\<close>, or -1.\<close>

fun LastIndex :: "string \<Rightarrow> string \<Rightarrow> int" where
  "LastIndex [] sep = (if sep = [] then 0 else -1)"
| "LastIndex (c # cs) sep =
     (let i = LastIndex cs sep in
      if 0 \<le> i then i + 1
      else if HasPrefix (c # cs) sep then 0 else -1)"

text \<open>
  \<open>strings.SplitN s sep n\<close> for a non-empty separator and \<open>n \<ge> 0\<close>: at most \<open>n\<close>
  substrings, the last one the unsplit remainder; \<open>n = 0\<close> gives no substring at all.
\<close>

fun SplitN :: "string \<Rightarrow> string \<Rightarrow> nat \<Rightarrow> string list" where
  "SplitN s sep 0 = []"
| "SplitN s sep (Suc n) =
     (if n = 0 then [s]
      else (let m = Index s sep in
            if m < 0 then [s]
            else take (nat m) s # SplitN (drop (nat m + length sep) s) sep n))"

subsection \<open>Package strconv\<close>

text \<open>
  \<open>strconv.Atoi\<close>: an optional sign, then one or more decimal digits and nothing else;
  a value outside Go's \<open>int\<close> is a range error. Both errors are \<open>None\<close>: the handler
  only tests \<open>err\<close> against \<open>nil\<close> and never reads the number beside an error.
  \<open>intSize\<close> is the width of \<open>int\<close> on the 64-bit platforms the server is built for.
\<close>

definition intSize :: nat where
  "intSize = 64"

definition isDigit :: "char \<Rightarrow> bool" where
  "isDigit c = ((48::nat) \<le> of_char c \<and> (of_char c :: nat) \<le> 57)"

definition digitsValue :: "string \<Rightarrow> int" where
  "digitsValue ds = foldl (\<lambda>n ch. n * 10 + (of_char ch - 48)) 0 ds"

definition Atoi :: "string \<Rightarrow> int option" where
  "Atoi s =
     (let neg = (s \<noteq> [] \<and> hd s = CHR ''-'');
          ds = (if s \<noteq> [] \<and> (hd s = CHR ''-'' \<or> hd s = CHR ''+'') then tl s else s)
      in if ds = [] \<or> \<not> list_all isDigit ds then None
         else (let n = (if neg then - digitsValue ds else digitsValue ds)
               in if n < - (2 ^ (intSize - 1)) \<or> 2 ^ (intSize - 1) - 1 < n then None
                  else Some n))"

subsection \<open>Package net/http: headers and the response writer\<close>

text \<open>
  \<open>http.Header\<close> is a map from canonical header names to lists of values. \<open>Set\<close> and
  \<open>Get\<close> canonicalise the name they are given (\<open>textproto.CanonicalMIMEHeaderKey\<close>:
  the first letter and every letter after a hyphen in upper case, the rest in lower case,
  provided the name is a valid header token), so \<open>ETag\<close> is stored as \<open>Etag\<close>.
\<close>

type_synonym Header = "string \<rightharpoonup> string list"

definition isLower :: "char \<Rightarrow> bool" where
  "isLower c = ((97::nat) \<le> of_char c \<and> (of_char c :: nat) \<le> 122)"

definition isUpper :: "char \<Rightarrow> bool" where
  "isUpper c = ((65::nat) \<le> of_char c \<and> (of_char c :: nat) \<le> 90)"

definition validHeaderFieldByte :: "char \<Rightarrow> bool" where
  "validHeaderFieldByte c =
     (isLower c \<or> isUpper c \<or> isDigit c \<or> c \<in> set ''!#$%&*+-.^_`|~'' \<or> c = CHR 0x27)"

fun canonicalise :: "bool \<Rightarrow> string \<Rightarrow> string" where
  "canonicalise upper [] = []"
| "canonicalise upper (c # cs) =
     (let c' = (if upper \<and> isLower c then char_of ((of_char c :: nat) - 32)
                else if \<not> upper \<and> isUpper c then char_of ((of_char c :: nat) + 32)
                else c)
      in c' # canonicalise (c' = CHR ''-'') cs)"

definition CanonicalMIMEHeaderKey :: "string \<Rightarrow> string" where
  "CanonicalMIMEHeaderKey s = (if list_all validHeaderFieldByte s then canonicalise True s else s)"

definition Header_Set :: "string \<Rightarrow> string \<Rightarrow> Header \<Rightarrow> Header" where
  "Header_Set key val h = h(CanonicalMIMEHeaderKey key \<mapsto> [val])"

definition Header_Get :: "Header \<Rightarrow> string \<Rightarrow> string" where
  "Header_Get h key =
     (case h (CanonicalMIMEHeaderKey key) of
        None \<Rightarrow> []
      | Some [] \<Rightarrow> []
      | Some (v # _) \<Rightarrow> v)"

text \<open>
  The response writer: the header map, the status code once it has been written, and
  the bytes of the body. \<open>WriteHeader\<close> takes effect once; \<open>Write\<close> writes status 200
  first when no status has been written.
\<close>

record ResponseWriter =
  header :: Header
  status :: "nat option"
  written :: string

definition newResponseWriter :: ResponseWriter where
  "newResponseWriter = \<lparr>header = Map.empty, status = None, written = []\<rparr>"

definition WriteHeader :: "nat \<Rightarrow> ResponseWriter \<Rightarrow> ResponseWriter" where
  "WriteHeader code w = (if status w = None then w\<lparr>status := Some code\<rparr> else w)"

definition Write :: "string \<Rightarrow> ResponseWriter \<Rightarrow> ResponseWriter" where
  "Write bs w = (let w' = WriteHeader 200 w in w'\<lparr>written := written w' @ bs\<rparr>)"

text \<open>
  \<open>http.Error\<close>: a plain-text content type, the \<open>nosniff\<close> option, the status code,
  and the message followed by a newline as the body.
\<close>

definition http_Error :: "ResponseWriter \<Rightarrow> string \<Rightarrow> nat \<Rightarrow> ResponseWriter" where
  "http_Error w msg code =
     (let w = w\<lparr>header := Header_Set ''Content-Type'' ''text/plain; charset=utf-8'' (header w)\<rparr>;
          w = w\<lparr>header := Header_Set ''X-Content-Type-Options'' ''nosniff'' (header w)\<rparr>;
          w = WriteHeader code w
      in Write (msg @ [CHR 0x0A]) w)"

text \<open>
  \<open>io.Copy(w, content)\<close> writes all the bytes of the source to the response. For an
  empty source Go's server writes the status 200 when the handler returns; the model
  writes it in \<open>Write\<close>, which gives the same response.
\<close>

definition io_Copy :: "ResponseWriter \<Rightarrow> string \<Rightarrow> ResponseWriter" where
  "io_Copy w content = Write content w"

section \<open>The download handler (disseminator/download.go)\<close>

subsection \<open>The collaborators\<close>

text \<open>
  Modelled from the spec: the packages \<open>fedora\<close> and \<open>auth\<close> are not among the source
  files. The spec gives the Repository Client two calls, each returning a result, the
  distinguished not-found sentinel or another failure, and the Authorization Checker a
  closed four-valued decision. \<open>DsInfo\<close> and \<open>ContentInfo\<close> hold the fields the handler
  reads. A Go \<open>error\<close> is \<open>nil\<close>, the sentinel \<open>fedora.FedoraNotFound\<close> or any other
  error; a call that returns a non-nil error is \<open>Inl\<close> of it. The content of a
  datastream, an \<open>io.ReadCloser\<close>, is the string of its bytes.
\<close>

datatype error = FedoraNotFound | OtherError string

record DsInfo =
  Label :: string
  VersionID :: string

record ContentInfo =
  Type :: string
  Length :: string

record Fedora =
  GetDatastreamInfo :: "string \<Rightarrow> string \<Rightarrow> error + DsInfo"
  GetDatastream :: "string \<Rightarrow> string \<Rightarrow> error + (string \<times> ContentInfo)"

datatype Authorization = AuthDeny | AuthNotFound | AuthAllow | AuthError

record Request =
  Method :: string
  URL_Path :: string
  Header :: Header

record DownloadHandler =
  Fedora :: Fedora
  Ds :: string
  Versioned :: bool
  Prefix :: string
  Auth :: "(Request \<Rightarrow> string \<Rightarrow> Authorization) option"

text \<open>
  What serving one request did: the response, and the calls made to the collaborators
  in the order they were made (\<open>CloseCall\<close> is the deferred \<open>content.Close()\<close>).
  Indexing an empty slice is the one way the handler could panic.
\<close>

datatype Call =
    CheckCall string
  | GetDatastreamInfoCall string string
  | GetDatastreamCall string string
  | CloseCall

record Served =
  resp :: ResponseWriter
  calls :: "Call list"

datatype Panic = IndexOutOfRange

subsection \<open>The handler\<close>

definition notFound :: "ResponseWriter \<Rightarrow> ResponseWriter" where
  "notFound w = http_Error w ''404 Not Found'' 404"

text \<open>\<open>currentVersion\<close> returns -1 on error.\<close>

definition currentVersion :: "DsInfo \<Rightarrow> int" where
  "currentVersion info =
     (let i = LastIndex (VersionID info) ''.'' in
      if i = -1 then -1
      else (case Atoi (drop (nat (i + 1)) (VersionID info)) of
              None \<Rightarrow> -1
            | Some version \<Rightarrow> version))"

text \<open>
  \<open>ServeHTTP\<close> is written in four parts, each ending in a final response or in the next
  part. \<open>ServeHTTP_content\<close> is the content fetch and the streaming (lines 152 to 177).
\<close>

definition ServeHTTP_content ::
  "DownloadHandler \<Rightarrow> string \<Rightarrow> DsInfo \<Rightarrow> ResponseWriter \<Rightarrow> Call list \<Rightarrow> Served" where
  "ServeHTTP_content dh pid dsinfo w cs =
     (let cs = cs @ [GetDatastreamCall pid (Ds dh)] in
      case GetDatastream (Fedora dh) pid (Ds dh) of
        Inl err \<Rightarrow>
          (case err of
             FedoraNotFound \<Rightarrow> \<lparr>resp = notFound w, calls = cs\<rparr>
           | _ \<Rightarrow> \<lparr>resp = http_Error w ''500 Internal Error'' 500, calls = cs\<rparr>)
      | Inr (content, info) \<Rightarrow>
          (let w = w\<lparr>header := Header_Set ''Content-Type'' (Type info) (header w)\<rparr>;
               w = w\<lparr>header := Header_Set ''Content-Length'' (Length info) (header w)\<rparr>;
               w = w\<lparr>header := Header_Set ''Content-Disposition''
                     (''inline; filename='' @ [CHR 0x22] @ Label dsinfo @ [CHR 0x22]) (header w)\<rparr>;
               w = w\<lparr>header := Header_Set ''Content-Transfer-Encoding'' ''binary'' (header w)\<rparr>;
               w = w\<lparr>header := Header_Set ''Cache-Control'' ''private'' (header w)\<rparr>;
               w = w\<lparr>header := Header_Set ''ETag'' (VersionID dsinfo) (header w)\<rparr>;
               w = io_Copy w content
           in \<lparr>resp = w, calls = cs @ [CloseCall]\<rparr>))"

text \<open>
  The metadata fetch, the version check and the e-tag match (lines 127 to 150). The loop
  over the \<open>If-None-Match\<close> values answers 304 at the first value equal to the version
  identifier, that is, when the identifier is among the values.
\<close>

definition ServeHTTP_info ::
  "DownloadHandler \<Rightarrow> Request \<Rightarrow> string \<Rightarrow> int \<Rightarrow> ResponseWriter \<Rightarrow> Call list \<Rightarrow> Served" where
  "ServeHTTP_info dh r pid version w cs =
     (let cs = cs @ [GetDatastreamInfoCall pid (Ds dh)] in
      case GetDatastreamInfo (Fedora dh) pid (Ds dh) of
        Inl err \<Rightarrow> \<lparr>resp = notFound w, calls = cs\<rparr>
      | Inr dsinfo \<Rightarrow>
          if 0 \<le> version \<and> version \<noteq> currentVersion dsinfo
          then \<lparr>resp = http_Error w ''403 Forbidden'' 403, calls = cs\<rparr>
          else
            (case Header r ''If-None-Match'' of
               None \<Rightarrow> ServeHTTP_content dh pid dsinfo w cs
             | Some etags \<Rightarrow>
                 if VersionID dsinfo \<in> set etags
                 then \<lparr>resp = WriteHeader 304
                         (w\<lparr>header := Header_Set ''ETag'' (VersionID dsinfo) (header w)\<rparr>),
                       calls = cs\<rparr>
                 else ServeHTTP_content dh pid dsinfo w cs))"

text \<open>The switch on the number of path components (lines 108 to 125).\<close>

definition ServeHTTP_version ::
  "DownloadHandler \<Rightarrow> Request \<Rightarrow> string list \<Rightarrow> string \<Rightarrow> ResponseWriter \<Rightarrow> Call list \<Rightarrow> Served" where
  "ServeHTTP_version dh r components pid w cs =
     (if length components = 1 then ServeHTTP_info dh r pid (-1) w cs
      else if length components = 2 then
        (if Versioned dh then
           (case Atoi (components ! 1) of
              None \<Rightarrow> \<lparr>resp = notFound w, calls = cs\<rparr>
            | Some version \<Rightarrow>
                if 0 \<le> version then ServeHTTP_info dh r pid version w cs
                else \<lparr>resp = notFound w, calls = cs\<rparr>)
         else \<lparr>resp = notFound w, calls = cs\<rparr>)
      else \<lparr>resp = notFound w, calls = cs\<rparr>)"

text \<open>
  The method gate, the path parsing and the authorization (lines 71 to 107). The server
  hands the handler a response writer nothing has been written to. \<open>components[0]\<close>
  panics on an empty slice. The \<open>default\<close> case of the switch on the checker's decision
  shares the answer of \<open>AuthError\<close>.
\<close>

definition ServeHTTP :: "DownloadHandler \<Rightarrow> Request \<Rightarrow> Panic + Served" where
  "ServeHTTP dh r =
     (let w = newResponseWriter in
      if Method r \<noteq> ''GET'' then Inr \<lparr>resp = notFound w, calls = []\<rparr>
      else
        (let path = TrimPrefix (URL_Path r) ''/'';
             path = TrimSuffix path ''/'';
             components = SplitN path ''/'' 2
         in case components of
              [] \<Rightarrow> Inl IndexOutOfRange
            | c0 # _ \<Rightarrow>
                (let pid = Prefix dh @ c0 in
                 case Auth dh of
                   None \<Rightarrow> Inr (ServeHTTP_version dh r components pid w [])
                 | Some check \<Rightarrow>
                     (case check r pid of
                        AuthDeny \<Rightarrow>
                          Inr \<lparr>resp = http_Error w ''401 Unauthorized'' 401, calls = [CheckCall pid]\<rparr>
                      | AuthNotFound \<Rightarrow> Inr \<lparr>resp = notFound w, calls = [CheckCall pid]\<rparr>
                      | AuthAllow \<Rightarrow> Inr (ServeHTTP_version dh r components pid w [CheckCall pid])
                      | AuthError \<Rightarrow>
                          Inr \<lparr>resp = http_Error w ''500 Server Error'' 500,
                               calls = [CheckCall pid]\<rparr>))))"

section \<open>Route-table construction (runHandlers)\<close>

text \<open>
  One entry of the configuration's \<open>Handler\<close> map. The fields \<open>Auth\<close>,
  \<open>Versioned\<close> and \<open>Prefix\<close> carry the prefix \<open>cfg\<close> here, their names being taken
  by the fields of \<open>DownloadHandler\<close>.
\<close>

record HandlerConfig =
  Port :: string
  cfg_Auth :: bool
  cfg_Versioned :: bool
  cfg_Prefix :: string
  Datastream :: string
  Datastream_id :: "string list"

text \<open>
  The closure \<open>hh\<close> that \<open>runHandlers\<close> builds for a configured handler: it captures
  the handler's name \<open>k\<close> and its \<open>DownloadHandler\<close> \<open>h\<close>.
\<close>

datatype HandlerFunc = HandlerFunc string DownloadHandler

text \<open>
  Modelled from the spec: the type \<open>DsidMux\<close> and its method \<open>AddHandler\<close> are not
  among the source files. The spec's router has one default pipeline and a binding of
  segment identifiers to pipelines, and "registering the same identifier twice replaces
  the prior binding (last registration wins)".
\<close>

record DsidMux =
  DefaultHandler :: "HandlerFunc option"
  registered :: "string \<rightharpoonup> HandlerFunc"

definition newDsidMux :: DsidMux where
  "newDsidMux = \<lparr>DefaultHandler = None, registered = Map.empty\<rparr>"

text \<open>
  Modelled from the spec: \<open>AddHandler\<close> binds the segment identifier to the handler,
  replacing a prior binding.
\<close>

definition AddHandler :: "string \<Rightarrow> HandlerFunc \<Rightarrow> DsidMux \<Rightarrow> DsidMux" where
  "AddHandler name hh mux = mux\<lparr>registered := (registered mux)(name \<mapsto> hh)\<rparr>"

text \<open>Lines 239 to 248: the handler becomes the default or is registered by name.\<close>

definition installHandler :: "HandlerFunc \<Rightarrow> string list \<Rightarrow> DsidMux \<Rightarrow> DsidMux" where
  "installHandler hh ids mux =
     (let mux = (if length ids = 0 then mux\<lparr>DefaultHandler := Some hh\<rparr> else mux)
      in foldl (\<lambda>m name. if name = ''default'' then m\<lparr>DefaultHandler := Some hh\<rparr>
                           else AddHandler name hh m) mux ids)"

text \<open>
  The body of the first loop of \<open>runHandlers\<close> (lines 201 to 249) for the entry \<open>k\<close>,
  \<open>v\<close> of the configuration: the handler is built, the multiplexer of its port is
  looked up or created, and the handler is installed in it.
\<close>

definition configuredHandler ::
  "Fedora \<Rightarrow> (Request \<Rightarrow> string \<Rightarrow> Authorization) \<Rightarrow> HandlerConfig \<Rightarrow> DownloadHandler" where
  "configuredHandler fedora auth v =
     \<lparr>Fedora = fedora, Ds = Datastream v, Versioned = cfg_Versioned v, Prefix = cfg_Prefix v,
      Auth = (if cfg_Auth v then Some auth else None)\<rparr>"

definition portMux :: "(string \<rightharpoonup> DsidMux) \<Rightarrow> string \<Rightarrow> DsidMux" where
  "portMux portHandlers port =
     (case portHandlers port of None \<Rightarrow> newDsidMux | Some mux \<Rightarrow> mux)"

definition runHandlers_entry ::
  "Fedora \<Rightarrow> (Request \<Rightarrow> string \<Rightarrow> Authorization) \<Rightarrow> (string \<rightharpoonup> DsidMux) \<Rightarrow>
   string \<times> HandlerConfig \<Rightarrow> (string \<rightharpoonup> DsidMux)" where
  "runHandlers_entry fedora auth portHandlers kv =
     (let k = fst kv; v = snd kv;
          h = configuredHandler fedora auth v;
          mux = portMux portHandlers (Port v);
          hh = HandlerFunc k h
      in portHandlers(Port v \<mapsto> installHandler hh (Datastream_id v) mux))"

text \<open>
  The route table \<open>portHandlers\<close> after the first loop. Go iterates over the map
  \<open>config.Handler\<close> in an unspecified order; the list gives the entries in the order of
  the iteration.
\<close>

definition runHandlers_table ::
  "Fedora \<Rightarrow> (Request \<Rightarrow> string \<Rightarrow> Authorization) \<Rightarrow> (string \<times> HandlerConfig) list \<Rightarrow>
   (string \<rightharpoonup> DsidMux)" where
  "runHandlers_table fedora auth config = foldl (runHandlers_entry fedora auth) Map.empty config"

section \<open>Vocabulary of the properties\<close>

text \<open>The path components the handler computes from a request path (lines 80 to 82).\<close>

abbreviation pathComponents :: "string \<Rightarrow> string list" where
  "pathComponents p \<equiv> SplitN (TrimSuffix (TrimPrefix p ''/'') ''/'') ''/'' 2"

text \<open>The identifier of a request: the prefix followed by the first path component.\<close>

definition requestPid :: "DownloadHandler \<Rightarrow> Request \<Rightarrow> string" where
  "requestPid dh r = Prefix dh @ hd (pathComponents (URL_Path r))"

text \<open>The request passes the authorization stage: no checker, or the checker allows.\<close>

definition authAllows :: "DownloadHandler \<Rightarrow> Request \<Rightarrow> bool" where
  "authAllows dh r =
     (case Auth dh of None \<Rightarrow> True | Some check \<Rightarrow> check r (requestPid dh r) = AuthAllow)"

text \<open>What can be observed of a served request; a panic has no response.\<close>

definition respOf :: "Panic + Served \<Rightarrow> ResponseWriter option" where
  "respOf x = (case x of Inl _ \<Rightarrow> None | Inr s \<Rightarrow> Some (resp s))"

definition statusOf :: "Panic + Served \<Rightarrow> nat option" where
  "statusOf x = (case x of Inl _ \<Rightarrow> None | Inr s \<Rightarrow> status (resp s))"

definition headerOf :: "Panic + Served \<Rightarrow> Header" where
  "headerOf x = (case x of Inl _ \<Rightarrow> Map.empty | Inr s \<Rightarrow> header (resp s))"

definition bodyOf :: "Panic + Served \<Rightarrow> string" where
  "bodyOf x = (case x of Inl _ \<Rightarrow> [] | Inr s \<Rightarrow> written (resp s))"

definition callsOf :: "Panic + Served \<Rightarrow> Call list" where
  "callsOf x = (case x of Inl _ \<Rightarrow> [] | Inr s \<Rightarrow> calls s)"

definition isRepositoryCall :: "Call \<Rightarrow> bool" where
  "isRepositoryCall c =
     (case c of GetDatastreamInfoCall _ _ \<Rightarrow> True | GetDatastreamCall _ _ \<Rightarrow> True | _ \<Rightarrow> False)"

definition isContentFetch :: "Call \<Rightarrow> bool" where
  "isContentFetch c = (case c of GetDatastreamCall _ _ \<Rightarrow> True | _ \<Rightarrow> False)"

text \<open>
  The spec's reading of a version identifier \<open><base>.<N>\<close>: the substring after the
  last \<open>.\<close>, and the number it parses to, if the identifier has a \<open>.\<close> and the
  substring is a number.
\<close>

definition suffixAfterLastDot :: "string \<Rightarrow> string" where
  "suffixAfterLastDot s = rev (takeWhile (\<lambda>c. c \<noteq> CHR ''.'') (rev s))"

definition numericSuffix :: "string \<Rightarrow> int option" where
  "numericSuffix s = (if CHR ''.'' \<in> set s then Atoi (suffixAfterLastDot s) else None)"

section \<open>Example requests and handlers\<close>

text \<open>
  The spec's scenario A: the object \<open>abc123\<close> under the prefix \<open>vecnet:\<close>, whose
  datastream \<open>content\<close> has the version identifier \<open>abc123.3\<close>.
\<close>

definition exInfo :: DsInfo where
  "exInfo = \<lparr>Label = ''report.pdf'', VersionID = ''abc123.3''\<rparr>"

definition exContentInfo :: ContentInfo where
  "exContentInfo = \<lparr>Type = ''application/pdf'', Length = ''5''\<rparr>"

definition exGetDatastreamInfo :: "string \<Rightarrow> string \<Rightarrow> error + DsInfo" where
  "exGetDatastreamInfo pid ds =
     (if pid = ''vecnet:abc123'' \<and> ds = ''content'' then Inr exInfo else Inl FedoraNotFound)"

definition exGetDatastream :: "string \<Rightarrow> string \<Rightarrow> error + (string \<times> ContentInfo)" where
  "exGetDatastream pid ds =
     (if pid = ''vecnet:abc123'' \<and> ds = ''content'' then Inr (''hello'', exContentInfo)
      else Inl FedoraNotFound)"

definition exFedora :: Fedora where
  "exFedora = \<lparr>GetDatastreamInfo = exGetDatastreamInfo, GetDatastream = exGetDatastream\<rparr>"

text \<open>A repository whose every call fails with an error other than the sentinel.\<close>

definition exRefused :: error where
  "exRefused = OtherError ''connection refused''"

definition exDownInfo :: "string \<Rightarrow> string \<Rightarrow> error + DsInfo" where
  "exDownInfo pid ds = Inl exRefused"

definition exDownContent :: "string \<Rightarrow> string \<Rightarrow> error + (string \<times> ContentInfo)" where
  "exDownContent pid ds = Inl exRefused"

definition exFedoraDown :: Fedora where
  "exFedoraDown = \<lparr>GetDatastreamInfo = exDownInfo, GetDatastream = exDownContent\<rparr>"

text \<open>A repository whose version identifier has no number after its last \<open>.\<close>.\<close>

definition exOddInfo :: "string \<Rightarrow> string \<Rightarrow> error + DsInfo" where
  "exOddInfo pid ds = Inr \<lparr>Label = ''report.pdf'', VersionID = ''abc123.draft''\<rparr>"

definition exFedoraOdd :: Fedora where
  "exFedoraOdd = \<lparr>GetDatastreamInfo = exOddInfo, GetDatastream = exGetDatastream\<rparr>"

definition exDeny :: "Request \<Rightarrow> string \<Rightarrow> Authorization" where
  "exDeny r pid = AuthDeny"

definition exAllow :: "Request \<Rightarrow> string \<Rightarrow> Authorization" where
  "exAllow r pid = AuthAllow"

definition exNotFound :: "Request \<Rightarrow> string \<Rightarrow> Authorization" where
  "exNotFound r pid = AuthNotFound"

definition exError :: "Request \<Rightarrow> string \<Rightarrow> Authorization" where
  "exError r pid = AuthError"

definition exHandler :: DownloadHandler where
  "exHandler = \<lparr>Fedora = exFedora, Ds = ''content'', Versioned = True, Prefix = ''vecnet:'',
                Auth = None\<rparr>"

definition exHandlerDown :: DownloadHandler where
  "exHandlerDown = \<lparr>Fedora = exFedoraDown, Ds = ''content'', Versioned = True,
                    Prefix = ''vecnet:'', Auth = None\<rparr>"

definition exHandlerOdd :: DownloadHandler where
  "exHandlerOdd = \<lparr>Fedora = exFedoraOdd, Ds = ''content'', Versioned = True,
                   Prefix = ''vecnet:'', Auth = None\<rparr>"

text \<open>A handler without versioned access whose checker denies every request.\<close>

definition exHandlerDenied :: DownloadHandler where
  "exHandlerDenied = \<lparr>Fedora = exFedora, Ds = ''content'', Versioned = False,
                      Prefix = ''vecnet:'', Auth = Some exDeny\<rparr>"

text \<open>A handler with versioned access whose checker denies every request.\<close>

definition exVersionedDenied :: DownloadHandler where
  "exVersionedDenied = \<lparr>Fedora = exFedora, Ds = ''content'', Versioned = True,
                        Prefix = ''vecnet:'', Auth = Some exDeny\<rparr>"

definition exGet :: "string \<Rightarrow> Request" where
  "exGet p = \<lparr>Method = ''GET'', URL_Path = p, Header = Map.empty\<rparr>"

definition exGetIfNoneMatch :: "string \<Rightarrow> string list \<Rightarrow> Request" where
  "exGetIfNoneMatch p etags =
     \<lparr>Method = ''GET'', URL_Path = p, Header = [''If-None-Match'' \<mapsto> etags]\<rparr>"

definition exPost :: "string \<Rightarrow> Request" where
  "exPost p = \<lparr>Method = ''POST'', URL_Path = p, Header = Map.empty\<rparr>"

definition exConfig :: HandlerConfig where
  "exConfig = \<lparr>Port = ''8080'', cfg_Auth = False, cfg_Versioned = True, cfg_Prefix = ''vecnet:'',
               Datastream = ''content'', Datastream_id = [''default'', ''content'']\<rparr>"

section \<open>Facts about the library functions\<close>

lemma SplitN_2_cases:
  "(\<exists>a. SplitN s sep 2 = [a]) \<or> (\<exists>a b. SplitN s sep 2 = [a, b])"
  by (simp add: numeral_2_eq_2 Let_def)

lemma pathComponents_nonempty: "pathComponents p \<noteq> []"
  using SplitN_2_cases [of "TrimSuffix (TrimPrefix p ''/'') ''/''" "''/''"] by auto

lemma canonical_keys:
  "CanonicalMIMEHeaderKey ''Content-Type'' = ''Content-Type''"
  "CanonicalMIMEHeaderKey ''X-Content-Type-Options'' = ''X-Content-Type-Options''"
  "CanonicalMIMEHeaderKey ''Content-Length'' = ''Content-Length''"
  "CanonicalMIMEHeaderKey ''Content-Disposition'' = ''Content-Disposition''"
  "CanonicalMIMEHeaderKey ''Content-Transfer-Encoding'' = ''Content-Transfer-Encoding''"
  "CanonicalMIMEHeaderKey ''Cache-Control'' = ''Cache-Control''"
  "CanonicalMIMEHeaderKey ''ETag'' = ''Etag''"
  by code_simp+

lemma http_Error_new:
  "http_Error newResponseWriter msg code =
     \<lparr>header = [''Content-Type'' \<mapsto> [''text/plain; charset=utf-8''],
                ''X-Content-Type-Options'' \<mapsto> [''nosniff'']],
      status = Some code, written = msg @ [CHR 0x0A]\<rparr>"
  by (simp add: http_Error_def newResponseWriter_def Header_Set_def canonical_keys
      WriteHeader_def Write_def Let_def)

lemma status_http_Error_new [simp]: "status (http_Error newResponseWriter msg code) = Some code"
  by (simp add: http_Error_new)

lemma status_notFound_new [simp]: "status (notFound newResponseWriter) = Some 404"
  by (simp add: notFound_def)

lemma HasPrefix_single: "HasPrefix s [c] \<longleftrightarrow> (s \<noteq> [] \<and> hd s = c)"
  by (cases s) (auto simp: HasPrefix_def)


lemma Index_single_ge: "- 1 \<le> Index s [c]"
  by (induction s) (auto simp: Let_def)







lemma LastIndex_single_iff: "LastIndex s [c] = -1 \<longleftrightarrow> c \<notin> set s"
  and LastIndex_single_ge: "- 1 \<le> LastIndex s [c]"
  by (induction s) (auto simp: HasPrefix_single Let_def)

lemma suffixAfterLastDot_Cons:
  "suffixAfterLastDot (x # xs) =
     (if CHR ''.'' \<in> set xs then suffixAfterLastDot xs else if x = CHR ''.'' then xs else x # xs)"
  by (auto simp: suffixAfterLastDot_def takeWhile_append)

lemma drop_LastIndex:
  "CHR ''.'' \<in> set s \<Longrightarrow> drop (nat (LastIndex s ''.'' + 1)) s = suffixAfterLastDot s"
proof (induction s)
  case Nil
  then show ?case by simp
next
  case (Cons x xs)
  show ?case
  proof (cases "CHR ''.'' \<in> set xs")
    case True
    then have "LastIndex xs ''.'' \<noteq> -1" by (simp add: LastIndex_single_iff)
    with LastIndex_single_ge [of xs "CHR ''.''"] have i: "0 \<le> LastIndex xs ''.''" by arith
    then have "nat (LastIndex xs ''.'' + 1 + 1) = Suc (nat (LastIndex xs ''.'' + 1))" by simp
    with i True Cons.IH show ?thesis by (simp add: suffixAfterLastDot_Cons Let_def)
  next
    case False
    then have "LastIndex xs ''.'' = -1" by (simp add: LastIndex_single_iff)
    with False Cons.prems show ?thesis
      by (simp add: suffixAfterLastDot_Cons Let_def HasPrefix_single)
  qed
qed

lemma currentVersion_numericSuffix:
  "currentVersion info = (case numericSuffix (VersionID info) of None \<Rightarrow> -1 | Some v \<Rightarrow> v)"
proof (cases "CHR ''.'' \<in> set (VersionID info)")
  case True
  then have "LastIndex (VersionID info) ''.'' \<noteq> -1" by (simp add: LastIndex_single_iff)
  with True show ?thesis
    by (simp add: currentVersion_def numericSuffix_def drop_LastIndex Let_def)
next
  case False
  then have "LastIndex (VersionID info) ''.'' = -1" by (simp add: LastIndex_single_iff)
  with False show ?thesis by (simp add: currentVersion_def numericSuffix_def)
qed

section \<open>The stages of ServeHTTP\<close>

lemma ServeHTTP_not_GET:
  "Method r \<noteq> ''GET'' \<Longrightarrow> ServeHTTP dh r = Inr \<lparr>resp = notFound newResponseWriter, calls = []\<rparr>"
  by (simp add: ServeHTTP_def)

lemma ServeHTTP_GET:
  assumes "Method r = ''GET''"
  shows "ServeHTTP dh r =
     (case Auth dh of
        None \<Rightarrow> Inr (ServeHTTP_version dh r (pathComponents (URL_Path r)) (requestPid dh r)
                  newResponseWriter [])
      | Some check \<Rightarrow>
          (case check r (requestPid dh r) of
             AuthDeny \<Rightarrow> Inr \<lparr>resp = http_Error newResponseWriter ''401 Unauthorized'' 401,
                              calls = [CheckCall (requestPid dh r)]\<rparr>
           | AuthNotFound \<Rightarrow> Inr \<lparr>resp = notFound newResponseWriter,
                                  calls = [CheckCall (requestPid dh r)]\<rparr>
           | AuthAllow \<Rightarrow> Inr (ServeHTTP_version dh r (pathComponents (URL_Path r))
                                (requestPid dh r) newResponseWriter [CheckCall (requestPid dh r)])
           | AuthError \<Rightarrow> Inr \<lparr>resp = http_Error newResponseWriter ''500 Server Error'' 500,
                               calls = [CheckCall (requestPid dh r)]\<rparr>))"
proof -
  obtain c0 rest where c: "pathComponents (URL_Path r) = c0 # rest"
    using pathComponents_nonempty [of "URL_Path r"] by (cases "pathComponents (URL_Path r)") auto
  show ?thesis
    using assms c
    by (simp add: ServeHTTP_def requestPid_def Let_def split: option.split Authorization.split)
qed

lemma ServeHTTP_content_calls:
  "calls (ServeHTTP_content dh pid dsinfo w cs) = cs @ calls (ServeHTTP_content dh pid dsinfo w [])"
  "resp (ServeHTTP_content dh pid dsinfo w cs) = resp (ServeHTTP_content dh pid dsinfo w [])"
  by (simp_all add: ServeHTTP_content_def Let_def split: sum.split error.split prod.split)

lemma ServeHTTP_info_calls:
  "calls (ServeHTTP_info dh r pid version w cs) = cs @ calls (ServeHTTP_info dh r pid version w [])"
  "resp (ServeHTTP_info dh r pid version w cs) = resp (ServeHTTP_info dh r pid version w [])"
  using ServeHTTP_content_calls [of dh pid _ w "cs @ [GetDatastreamInfoCall pid (Ds dh)]"]
        ServeHTTP_content_calls [of dh pid _ w "[GetDatastreamInfoCall pid (Ds dh)]"]
  by (simp_all add: ServeHTTP_info_def Let_def split: sum.split option.split)

lemma ServeHTTP_version_calls:
  "calls (ServeHTTP_version dh r c pid w cs) = cs @ calls (ServeHTTP_version dh r c pid w [])"
  "resp (ServeHTTP_version dh r c pid w cs) = resp (ServeHTTP_version dh r c pid w [])"
  using ServeHTTP_info_calls [of dh r pid _ w cs]
  by (simp_all add: ServeHTTP_version_def split: option.split)

lemma ServeHTTP_content_Auth [simp]:
  "ServeHTTP_content (dh\<lparr>Auth := a\<rparr>) pid dsinfo w cs = ServeHTTP_content dh pid dsinfo w cs"
  by (simp add: ServeHTTP_content_def)

lemma ServeHTTP_info_Auth [simp]:
  "ServeHTTP_info (dh\<lparr>Auth := a\<rparr>) r pid version w cs = ServeHTTP_info dh r pid version w cs"
  by (simp add: ServeHTTP_info_def Let_def split: sum.split option.split)

lemma ServeHTTP_version_Auth [simp]:
  "ServeHTTP_version (dh\<lparr>Auth := a\<rparr>) r c pid w cs = ServeHTTP_version dh r c pid w cs"
  by (simp add: ServeHTTP_version_def split: option.split)

lemma requestPid_Auth [simp]: "requestPid (dh\<lparr>Auth := a\<rparr>) r = requestPid dh r"
  by (simp add: requestPid_def)


lemma ServeHTTP_allowed:
  assumes "Method r = ''GET''" and "authAllows dh r"
  shows "ServeHTTP dh r =
     Inr (ServeHTTP_version dh r (pathComponents (URL_Path r)) (requestPid dh r) newResponseWriter
           (case Auth dh of None \<Rightarrow> [] | Some _ \<Rightarrow> [CheckCall (requestPid dh r)]))"
  using assms by (auto simp: ServeHTTP_GET authAllows_def split: option.split)

lemma ServeHTTP_version_one:
  "ServeHTTP_version dh r [a] pid w cs = ServeHTTP_info dh r pid (-1) w cs"
  by (simp add: ServeHTTP_version_def)

lemma ServeHTTP_version_two:
  "ServeHTTP_version dh r [a, b] pid w cs =
     (if Versioned dh \<and> (\<exists>n. Atoi b = Some n \<and> 0 \<le> n)
      then ServeHTTP_info dh r pid (the (Atoi b)) w cs
      else \<lparr>resp = notFound w, calls = cs\<rparr>)"
  by (auto simp: ServeHTTP_version_def split: option.split)

lemma ServeHTTP_info_error:
  "GetDatastreamInfo (Fedora dh) pid (Ds dh) = Inl err \<Longrightarrow>
     ServeHTTP_info dh r pid version w cs =
       \<lparr>resp = notFound w, calls = cs @ [GetDatastreamInfoCall pid (Ds dh)]\<rparr>"
  by (simp add: ServeHTTP_info_def Let_def)

lemma ServeHTTP_info_mismatch:
  "GetDatastreamInfo (Fedora dh) pid (Ds dh) = Inr dsinfo \<Longrightarrow>
   0 \<le> version \<Longrightarrow> version \<noteq> currentVersion dsinfo \<Longrightarrow>
     ServeHTTP_info dh r pid version w cs =
       \<lparr>resp = http_Error w ''403 Forbidden'' 403,
        calls = cs @ [GetDatastreamInfoCall pid (Ds dh)]\<rparr>"
  by (simp add: ServeHTTP_info_def Let_def)

lemma ServeHTTP_info_current:
  "GetDatastreamInfo (Fedora dh) pid (Ds dh) = Inr dsinfo \<Longrightarrow>
   version < 0 \<or> version = currentVersion dsinfo \<Longrightarrow>
     ServeHTTP_info dh r pid version w cs =
       (if (\<exists>etags. Header r ''If-None-Match'' = Some etags \<and> VersionID dsinfo \<in> set etags)
        then \<lparr>resp = WriteHeader 304
                 (w\<lparr>header := Header_Set ''ETag'' (VersionID dsinfo) (header w)\<rparr>),
              calls = cs @ [GetDatastreamInfoCall pid (Ds dh)]\<rparr>
        else ServeHTTP_content dh pid dsinfo w (cs @ [GetDatastreamInfoCall pid (Ds dh)]))"
  by (auto simp: ServeHTTP_info_def Let_def split: option.split)

lemma ServeHTTP_info_URL_Path [simp]:
  "ServeHTTP_info dh (r\<lparr>URL_Path := p\<rparr>) pid version w cs = ServeHTTP_info dh r pid version w cs"
  by (simp add: ServeHTTP_info_def Let_def split: sum.split option.split)

lemmas eval_path = TrimPrefix_def TrimSuffix_def HasPrefix_def HasSuffix_def numeral_2_eq_2
lemmas eval_atoi = Atoi_def isDigit_def digitsValue_def intSize_def
lemmas eval_ex = exGet_def exGetIfNoneMatch_def exPost_def exHandler_def exHandlerDown_def
  exHandlerOdd_def exHandlerDenied_def exVersionedDenied_def exFedora_def exFedoraDown_def exFedoraOdd_def
  exGetDatastreamInfo_def exGetDatastream_def exDownInfo_def exDownContent_def exOddInfo_def
  exInfo_def exContentInfo_def exRefused_def exDeny_def exAllow_def exNotFound_def exError_def

lemma ServeHTTP_content_new:
  "ServeHTTP_content dh pid dsinfo newResponseWriter cs =
     (case GetDatastream (Fedora dh) pid (Ds dh) of
        Inl err \<Rightarrow>
          \<lparr>resp = (if err = FedoraNotFound then notFound newResponseWriter
                   else http_Error newResponseWriter ''500 Internal Error'' 500),
           calls = cs @ [GetDatastreamCall pid (Ds dh)]\<rparr>
      | Inr ci \<Rightarrow>
          \<lparr>resp = \<lparr>header = [''Content-Type'' \<mapsto> [Type (snd ci)],
                             ''Content-Length'' \<mapsto> [Length (snd ci)],
                             ''Content-Disposition'' \<mapsto>
                               [''inline; filename='' @ [CHR 0x22] @ Label dsinfo @ [CHR 0x22]],
                             ''Content-Transfer-Encoding'' \<mapsto> [''binary''],
                             ''Cache-Control'' \<mapsto> [''private''],
                             ''Etag'' \<mapsto> [VersionID dsinfo]],
                   status = Some 200, written = fst ci\<rparr>,
           calls = cs @ [GetDatastreamCall pid (Ds dh), CloseCall]\<rparr>)"
  by (simp add: ServeHTTP_content_def newResponseWriter_def Header_Set_def canonical_keys
      io_Copy_def Write_def WriteHeader_def Let_def
      split: sum.split error.split prod.split)


lemma not_modified_new:
  "WriteHeader 304 (newResponseWriter\<lparr>header := Header_Set ''ETag'' v (header newResponseWriter)\<rparr>)
     = \<lparr>header = [''Etag'' \<mapsto> [v]], status = Some 304, written = []\<rparr>"
  by (simp add: WriteHeader_def newResponseWriter_def Header_Set_def canonical_keys)


lemma metadata_error_is_404:
  assumes "Method r = ''GET''" and "authAllows dh r"
    and "pathComponents (URL_Path r) = [a] \<or>
         (\<exists>b n. pathComponents (URL_Path r) = [a, b] \<and> Versioned dh \<and> Atoi b = Some n \<and> 0 \<le> n)"
    and "GetDatastreamInfo (Fedora dh) (requestPid dh r) (Ds dh) = Inl err"
  shows "statusOf (ServeHTTP dh r) = Some 404"
  using assms
  by (auto simp: ServeHTTP_allowed ServeHTTP_version_one ServeHTTP_version_two
      ServeHTTP_info_error statusOf_def)

lemma requestPid_components:
  "pathComponents (URL_Path r) = a # rest \<Longrightarrow> requestPid dh r = Prefix dh @ a"
  by (simp add: requestPid_def)

lemma status_200_reaches_version:
  assumes "statusOf (ServeHTTP dh r) = Some 200"
  shows "Method r = ''GET'' \<and> authAllows dh r"
proof -
  have g: "Method r = ''GET''"
  proof (rule ccontr)
    assume "Method r \<noteq> ''GET''"
    then show False using assms by (simp add: ServeHTTP_not_GET statusOf_def)
  qed
  have "authAllows dh r"
  proof (rule ccontr)
    assume "\<not> authAllows dh r"
    then show False using assms g
      by (auto simp: ServeHTTP_GET authAllows_def statusOf_def
          split: option.splits Authorization.splits)
  qed
  with g show ?thesis by simp
qed

lemma status_200_version:
  assumes "status (resp (ServeHTTP_version dh r c pid newResponseWriter cs)) = Some 200"
  shows "\<exists>v. ServeHTTP_version dh r c pid newResponseWriter cs =
              ServeHTTP_info dh r pid v newResponseWriter cs"
  using assms by (auto simp: ServeHTTP_version_def split: if_splits option.splits)

lemma status_200_info:
  assumes "status (resp (ServeHTTP_info dh r pid v newResponseWriter cs)) = Some 200"
  shows "\<exists>dsinfo. GetDatastreamInfo (Fedora dh) pid (Ds dh) = Inr dsinfo \<and>
           ServeHTTP_info dh r pid v newResponseWriter cs =
             ServeHTTP_content dh pid dsinfo newResponseWriter
               (cs @ [GetDatastreamInfoCall pid (Ds dh)])"
  using assms
  by (auto simp: ServeHTTP_info_def Let_def not_modified_new split: sum.splits if_splits option.splits)

lemma ServeHTTP_ex_200:
  "ServeHTTP exHandler (exGet ''/abc123'') =
     Inr \<lparr>resp = \<lparr>header = [''Content-Type'' \<mapsto> [''application/pdf''],
                             ''Content-Length'' \<mapsto> [''5''],
                             ''Content-Disposition'' \<mapsto>
                               [''inline; filename='' @ [CHR 0x22] @ ''report.pdf'' @ [CHR 0x22]],
                             ''Content-Transfer-Encoding'' \<mapsto> [''binary''],
                             ''Cache-Control'' \<mapsto> [''private''],
                             ''Etag'' \<mapsto> [''abc123.3'']],
                  status = Some 200, written = ''hello''\<rparr>,
          calls = [GetDatastreamInfoCall ''vecnet:abc123'' ''content'',
                   GetDatastreamCall ''vecnet:abc123'' ''content'', CloseCall]\<rparr>"
  by (simp add: ServeHTTP_GET requestPid_def ServeHTTP_version_def ServeHTTP_info_def
      ServeHTTP_content_new eval_path eval_ex)


section \<open>Facts about the route table\<close>

lemma install_fold_default:
  "DefaultHandler (foldl (\<lambda>m name. if name = ''default'' then m\<lparr>DefaultHandler := Some hh\<rparr>
                           else AddHandler name hh m) mux ids) =
     (if ''default'' \<in> set ids then Some hh else DefaultHandler mux)"
  by (induction ids arbitrary: mux) (auto simp: AddHandler_def)

lemma install_fold_registered:
  "registered (foldl (\<lambda>m name. if name = ''default'' then m\<lparr>DefaultHandler := Some hh\<rparr>
                           else AddHandler name hh m) mux ids) name =
     (if name \<in> set ids \<and> name \<noteq> ''default'' then Some hh else registered mux name)"
  by (induction ids arbitrary: mux) (auto simp: AddHandler_def)

lemma installHandler_default:
  "DefaultHandler (installHandler hh ids mux) =
     (if ids = [] \<or> ''default'' \<in> set ids then Some hh else DefaultHandler mux)"
  by (simp add: installHandler_def Let_def install_fold_default)

lemma installHandler_registered:
  "registered (installHandler hh ids mux) name =
     (if name \<in> set ids \<and> name \<noteq> ''default'' then Some hh else registered mux name)"
  by (simp add: installHandler_def Let_def install_fold_registered)

lemma runHandlers_entry_port:
  "runHandlers_entry fedora auth portHandlers (k, v) (Port v) =
     Some (installHandler (HandlerFunc k (configuredHandler fedora auth v)) (Datastream_id v)
            (portMux portHandlers (Port v)))"
  by (simp add: runHandlers_entry_def Let_def)

lemma runHandlers_entry_other:
  "port \<noteq> Port v \<Longrightarrow> runHandlers_entry fedora auth portHandlers (k, v) port = portHandlers port"
  by (simp add: runHandlers_entry_def Let_def)

text \<open>
  The table after the whole loop: the last entry is installed as \<open>runHandlers_entry\<close>
  says, and the entries of other ports leave the multiplexer of a port as it is.
\<close>

lemma runHandlers_table_snoc:
  "runHandlers_table fedora auth (config @ [kv]) =
     runHandlers_entry fedora auth (runHandlers_table fedora auth config) kv"
  by (simp add: runHandlers_table_def)

lemma runHandlers_table_other_ports:
  "\<forall>kv \<in> set later. Port (snd kv) \<noteq> port \<Longrightarrow>
   foldl (runHandlers_entry fedora auth) table later port = table port"
proof (induction later arbitrary: table)
  case Nil
  then show ?case by simp
next
  case (Cons kv later)
  then have "foldl (runHandlers_entry fedora auth) (runHandlers_entry fedora auth table kv) later port
               = runHandlers_entry fedora auth table kv port"
    by simp
  moreover have "runHandlers_entry fedora auth table kv port = table port"
    using Cons.prems runHandlers_entry_other [of port "snd kv" fedora auth table "fst kv"] by auto
  ultimately show ?case by simp
qed

section \<open>The method gate\<close>

text \<open>
  C7. A request whose method is not GET is answered 404 Not Found at once, whatever its
  path, the handler's configuration, the authorization checker and the repository: the
  body is the 404 message and no collaborator is called.
\<close>

theorem non_GET_is_404:
  "Method r \<noteq> ''GET'' \<Longrightarrow>
     statusOf (ServeHTTP dh r) = Some 404 \<and>
     bodyOf (ServeHTTP dh r) = ''404 Not Found'' @ [CHR 0x0A] \<and>
     callsOf (ServeHTTP dh r) = []"
  by (simp add: ServeHTTP_not_GET statusOf_def bodyOf_def callsOf_def notFound_def http_Error_new)

theorem non_GET_is_404_witness:
  "Method (exPost ''/abc123'') \<noteq> ''GET'' \<and>
   statusOf (ServeHTTP exHandler (exPost ''/abc123'')) = Some 404 \<and>
   bodyOf (ServeHTTP exHandler (exPost ''/abc123'')) = ''404 Not Found'' @ [CHR 0x0A] \<and>
   callsOf (ServeHTTP exHandler (exPost ''/abc123'')) = []"
  using non_GET_is_404 [of "exPost ''/abc123''" exHandler] by (simp add: exPost_def)

section \<open>Path parsing\<close>




section \<open>Authorization\<close>

text \<open>
  C5. When the handler has an authorization checker, a GET request calls it first, with
  the identifier parsed from the path. Deny is answered 401, NotFound 404 and Error 500,
  each with the check as the only call made, whatever the version segment of the path
  is; Allow continues: the response is the one the handler without a checker gives, and
  the calls are the check followed by that handler's calls.
\<close>

theorem authorization_first:
  assumes "Method r = ''GET''" and "Auth dh = Some check"
  shows "(\<exists>cs. callsOf (ServeHTTP dh r) = CheckCall (requestPid dh r) # cs) \<and>
    (check r (requestPid dh r) = AuthDeny \<longrightarrow>
       statusOf (ServeHTTP dh r) = Some 401 \<and>
       callsOf (ServeHTTP dh r) = [CheckCall (requestPid dh r)]) \<and>
    (check r (requestPid dh r) = AuthNotFound \<longrightarrow>
       statusOf (ServeHTTP dh r) = Some 404 \<and>
       callsOf (ServeHTTP dh r) = [CheckCall (requestPid dh r)]) \<and>
    (check r (requestPid dh r) = AuthError \<longrightarrow>
       statusOf (ServeHTTP dh r) = Some 500 \<and>
       callsOf (ServeHTTP dh r) = [CheckCall (requestPid dh r)]) \<and>
    (check r (requestPid dh r) = AuthAllow \<longrightarrow>
       respOf (ServeHTTP dh r) = respOf (ServeHTTP (dh\<lparr>Auth := None\<rparr>) r) \<and>
       callsOf (ServeHTTP dh r) =
         CheckCall (requestPid dh r) # callsOf (ServeHTTP (dh\<lparr>Auth := None\<rparr>) r))"
proof -
  let ?pid = "requestPid dh r"
  let ?v = "\<lambda>cs. ServeHTTP_version dh r (pathComponents (URL_Path r)) ?pid newResponseWriter cs"
  have none: "ServeHTTP (dh\<lparr>Auth := None\<rparr>) r = Inr (?v [])"
    using assms(1) by (simp add: ServeHTTP_GET)
  have c: "calls (?v [CheckCall ?pid]) = CheckCall ?pid # calls (?v [])"
    using ServeHTTP_version_calls(1) [of dh r _ ?pid newResponseWriter "[CheckCall ?pid]"] by simp
  have w: "resp (?v [CheckCall ?pid]) = resp (?v [])"
    using ServeHTTP_version_calls(2) [of dh r _ ?pid newResponseWriter "[CheckCall ?pid]"] by simp
  show ?thesis
  proof (cases "check r ?pid")
    case AuthDeny
    then show ?thesis using assms
      by (simp add: ServeHTTP_GET statusOf_def callsOf_def)
  next
    case AuthNotFound
    then show ?thesis using assms
      by (simp add: ServeHTTP_GET statusOf_def callsOf_def)
  next
    case AuthAllow
    then show ?thesis using assms c w
      by (simp add: ServeHTTP_GET [of r dh] none respOf_def callsOf_def)
  next
    case AuthError
    then show ?thesis using assms
      by (simp add: ServeHTTP_GET statusOf_def callsOf_def)
  qed
qed



theorem authorization_first_witness:
  "Method (exGet ''/abc123/x'') = ''GET'' \<and>
   Auth (exHandler\<lparr>Auth := Some exDeny\<rparr>) = Some exDeny \<and>
   statusOf (ServeHTTP (exHandler\<lparr>Auth := Some exDeny\<rparr>) (exGet ''/abc123/x'')) = Some 401 \<and>
   callsOf (ServeHTTP (exHandler\<lparr>Auth := Some exDeny\<rparr>) (exGet ''/abc123/x'')) =
     [CheckCall ''vecnet:abc123''] \<and>
   statusOf (ServeHTTP (exHandler\<lparr>Auth := Some exNotFound\<rparr>) (exGet ''/abc123/x'')) = Some 404 \<and>
   callsOf (ServeHTTP (exHandler\<lparr>Auth := Some exNotFound\<rparr>) (exGet ''/abc123/x'')) =
     [CheckCall ''vecnet:abc123''] \<and>
   statusOf (ServeHTTP (exHandler\<lparr>Auth := Some exError\<rparr>) (exGet ''/abc123/x'')) = Some 500 \<and>
   callsOf (ServeHTTP (exHandler\<lparr>Auth := Some exError\<rparr>) (exGet ''/abc123/x'')) =
     [CheckCall ''vecnet:abc123''] \<and>
   respOf (ServeHTTP (exHandler\<lparr>Auth := Some exAllow\<rparr>) (exGet ''/abc123/x'')) =
     respOf (ServeHTTP exHandler (exGet ''/abc123/x'')) \<and>
   callsOf (ServeHTTP (exHandler\<lparr>Auth := Some exAllow\<rparr>) (exGet ''/abc123/x'')) =
     CheckCall ''vecnet:abc123'' # callsOf (ServeHTTP exHandler (exGet ''/abc123/x''))"
proof -
  have p: "requestPid exHandler (exGet ''/abc123/x'') = ''vecnet:abc123''"
    by (simp add: requestPid_def eval_path exGet_def exHandler_def)
  have m: "Method (exGet ''/abc123/x'') = ''GET''"
    by (simp add: exGet_def)
  have e: "exHandler\<lparr>Auth := Some exAllow, Auth := None\<rparr> = exHandler"
    by (simp add: exHandler_def)
  show ?thesis
    using authorization_first [of "exGet ''/abc123/x''" "exHandler\<lparr>Auth := Some exDeny\<rparr>" exDeny]
      authorization_first [of "exGet ''/abc123/x''" "exHandler\<lparr>Auth := Some exNotFound\<rparr>" exNotFound]
      authorization_first [of "exGet ''/abc123/x''" "exHandler\<lparr>Auth := Some exError\<rparr>" exError]
      authorization_first [of "exGet ''/abc123/x''" "exHandler\<lparr>Auth := Some exAllow\<rparr>" exAllow]
    by (simp add: p e m exDeny_def exNotFound_def exError_def exAllow_def)
qed

section \<open>The version segment\<close>

text \<open>
  C6 (as amended). For a GET request whose path has a second segment, when the handler
  is not versioned or the segment does not parse as a non-negative integer: if the
  handler has no authorization checker or the checker allows the request, the answer is
  404; and whatever the checker decides, no call is made to the repository.
\<close>

theorem second_segment_rejected:
  assumes "Method r = ''GET''" and "pathComponents (URL_Path r) = [a, b]"
    and "\<not> Versioned dh \<or> Atoi b = None \<or> (\<exists>n. Atoi b = Some n \<and> n < 0)"
  shows "(authAllows dh r \<longrightarrow> statusOf (ServeHTTP dh r) = Some 404) \<and>
         filter isRepositoryCall (callsOf (ServeHTTP dh r)) = []"
proof -
  have v: "ServeHTTP_version dh r [a, b] pid newResponseWriter cs =
      \<lparr>resp = notFound newResponseWriter, calls = cs\<rparr>" for pid cs
    using assms(3) by (auto simp: ServeHTTP_version_two)
  show ?thesis
    using assms(1,2)
    by (simp add: ServeHTTP_GET v authAllows_def statusOf_def callsOf_def isRepositoryCall_def
        split: option.split Authorization.split)
qed

theorem second_segment_rejected_witness:
  "Method (exGet ''/abc123/3'') = ''GET'' \<and>
   pathComponents (URL_Path (exGet ''/abc123/3'')) = [''abc123'', ''3''] \<and>
   \<not> Versioned (exHandler\<lparr>Versioned := False\<rparr>) \<and>
   authAllows (exHandler\<lparr>Versioned := False\<rparr>) (exGet ''/abc123/3'') \<and>
   statusOf (ServeHTTP (exHandler\<lparr>Versioned := False\<rparr>) (exGet ''/abc123/3'')) = Some 404 \<and>
   filter isRepositoryCall
     (callsOf (ServeHTTP (exHandler\<lparr>Versioned := False\<rparr>) (exGet ''/abc123/3''))) = [] \<and>
   pathComponents (URL_Path (exGet ''/abc123/-1'')) = [''abc123'', ''-1''] \<and>
   Atoi ''-1'' = Some (- 1) \<and> authAllows exHandler (exGet ''/abc123/-1'') \<and>
   statusOf (ServeHTTP exHandler (exGet ''/abc123/-1'')) = Some 404 \<and>
   pathComponents (URL_Path (exGet ''/abc123/v3'')) = [''abc123'', ''v3''] \<and>
   Atoi ''v3'' = None \<and> authAllows exHandler (exGet ''/abc123/v3'') \<and>
   statusOf (ServeHTTP exHandler (exGet ''/abc123/v3'')) = Some 404"
proof -
  have m: "Method (exGet p) = ''GET''" for p by (simp add: exGet_def)
  have c3: "pathComponents (URL_Path (exGet ''/abc123/3'')) = [''abc123'', ''3'']"
    and cm: "pathComponents (URL_Path (exGet ''/abc123/-1'')) = [''abc123'', ''-1'']"
    and cv: "pathComponents (URL_Path (exGet ''/abc123/v3'')) = [''abc123'', ''v3'']"
    by (simp_all add: exGet_def eval_path)
  have am: "Atoi ''-1'' = Some (- 1)" and av: "Atoi ''v3'' = None"
    by (simp_all add: eval_atoi)
  have nv: "\<not> Versioned (exHandler\<lparr>Versioned := False\<rparr>)" by simp
  have al: "authAllows (exHandler\<lparr>Versioned := x\<rparr>) r" "authAllows exHandler r" for x r
    by (simp_all add: authAllows_def exHandler_def)
  show ?thesis
    using second_segment_rejected [OF m c3, of "exHandler\<lparr>Versioned := False\<rparr>"]
      second_segment_rejected [OF m cm, of exHandler]
      second_segment_rejected [OF m cv, of exHandler]
    by (simp add: m c3 cm cv am av al)
qed

text \<open>
  C6 as stated gives 404 for every such request. The authorization comes before the
  switch on the number of components: a handler without versioned access whose checker
  denies answers \<open>GET /abc123/3\<close> with 401.
\<close>

theorem second_segment_denied_counterexample:
  "\<not> Versioned exHandlerDenied \<and> Method (exGet ''/abc123/3'') = ''GET'' \<and>
   pathComponents (URL_Path (exGet ''/abc123/3'')) = [''abc123'', ''3''] \<and>
   statusOf (ServeHTTP exHandlerDenied (exGet ''/abc123/3'')) = Some 401 \<and>
   statusOf (ServeHTTP exHandlerDenied (exGet ''/abc123/3'')) \<noteq> Some 404"
  by (simp add: ServeHTTP_GET statusOf_def requestPid_def eval_path exHandlerDenied_def
      exGet_def exDeny_def)

section \<open>The metadata fetch\<close>

text \<open>
  C1. The claim gives 404 for the not-found sentinel and 500 for any other failure of
  \<open>GetDatastreamInfo\<close>. The handler answers \<open>notFound\<close> for every error of that call
  (lines 128 to 132), while the content fetch below it tells the sentinel from the
  other errors (lines 155 to 163). With a repository whose metadata call fails with
  "connection refused", \<open>GET /abc123\<close> is answered 404, not 500.
\<close>

theorem metadata_other_error_is_404:
  "GetDatastreamInfo (Fedora exHandlerDown) ''vecnet:abc123'' ''content'' =
     Inl (OtherError ''connection refused'') \<and>
   statusOf (ServeHTTP exHandlerDown (exGet ''/abc123'')) = Some 404 \<and>
   callsOf (ServeHTTP exHandlerDown (exGet ''/abc123'')) =
     [GetDatastreamInfoCall ''vecnet:abc123'' ''content'']"
  by (simp add: ServeHTTP_GET requestPid_def ServeHTTP_version_def ServeHTTP_info_def
      statusOf_def callsOf_def eval_path eval_ex)

section \<open>The version check\<close>




text \<open>
  C3. Take a versioned request whose token \<open>n\<close> was supplied and validated, so that it
  passed the authorization, and let the repository return metadata whose version
  identifier has no \<open>.\<close>, or whose substring after the last \<open>.\<close> is not an integer.
  Then \<open>currentVersion\<close> is -1, which differs from \<open>n\<close>, and the answer is 403.
\<close>

theorem unparsable_version_is_403:
  assumes "Versioned dh" and "Method r = ''GET''"
    and "pathComponents (URL_Path r) = [a, b]" and "Atoi b = Some n" and "0 \<le> n"
    and "authAllows dh r"
    and "GetDatastreamInfo (Fedora dh) (Prefix dh @ a) (Ds dh) = Inr dsinfo"
    and "CHR ''.'' \<notin> set (VersionID dsinfo) \<or> Atoi (suffixAfterLastDot (VersionID dsinfo)) = None"
  shows "currentVersion dsinfo = -1 \<and> currentVersion dsinfo \<noteq> n \<and>
         statusOf (ServeHTTP dh r) = Some 403"
proof -
  have "numericSuffix (VersionID dsinfo) = None"
    using assms(8) by (auto simp: numericSuffix_def)
  then have cur: "currentVersion dsinfo = -1"
    by (simp add: currentVersion_numericSuffix)
  have pid: "requestPid dh r = Prefix dh @ a"
    using assms(3) by (simp add: requestPid_components)
  have "ServeHTTP dh r = Inr (ServeHTTP_info dh r (Prefix dh @ a) n newResponseWriter
          (case Auth dh of None \<Rightarrow> [] | Some _ \<Rightarrow> [CheckCall (Prefix dh @ a)]))"
    using assms by (simp add: ServeHTTP_allowed pid ServeHTTP_version_two cong: option.case_cong)
  then show ?thesis
    using cur assms(5,7) by (simp add: ServeHTTP_info_mismatch statusOf_def)
qed

theorem unparsable_version_is_403_witness:
  "Versioned exHandlerOdd \<and> Method (exGet ''/abc123/3'') = ''GET'' \<and>
   pathComponents (URL_Path (exGet ''/abc123/3'')) = [''abc123'', ''3''] \<and>
   Atoi ''3'' = Some 3 \<and> authAllows exHandlerOdd (exGet ''/abc123/3'') \<and>
   GetDatastreamInfo (Fedora exHandlerOdd) (Prefix exHandlerOdd @ ''abc123'') (Ds exHandlerOdd) =
     Inr \<lparr>Label = ''report.pdf'', VersionID = ''abc123.draft''\<rparr> \<and>
   Atoi (suffixAfterLastDot ''abc123.draft'') = None \<and>
   currentVersion \<lparr>Label = ''report.pdf'', VersionID = ''abc123.draft''\<rparr> = -1 \<and>
   statusOf (ServeHTTP exHandlerOdd (exGet ''/abc123/3'')) = Some 403"
proof -
  have c3: "pathComponents (URL_Path (exGet ''/abc123/3'')) = [''abc123'', ''3'']"
    by (simp add: exGet_def eval_path)
  have a3: "Atoi ''3'' = Some 3" by (simp add: eval_atoi)
  have al: "authAllows exHandlerOdd r" for r
    by (simp add: authAllows_def exHandlerOdd_def)
  have i: "GetDatastreamInfo (Fedora exHandlerOdd) (Prefix exHandlerOdd @ ''abc123'') (Ds exHandlerOdd) =
     Inr \<lparr>Label = ''report.pdf'', VersionID = ''abc123.draft''\<rparr>"
    by (simp add: exHandlerOdd_def exFedoraOdd_def exOddInfo_def)
  have s: "Atoi (suffixAfterLastDot ''abc123.draft'') = None"
    by (simp add: suffixAfterLastDot_def eval_atoi)
  have v: "Versioned exHandlerOdd" by (simp add: exHandlerOdd_def)
  have m: "Method (exGet p) = ''GET''" for p by (simp add: exGet_def)
  show ?thesis
    using unparsable_version_is_403 [OF v m c3 a3 _ al i]
    by (auto simp: c3 a3 al i s v m)
qed

section \<open>The conditional check\<close>

text \<open>
  C4. A request reaches the e-tag match when it is a GET, passes the authorization,
  has one path component or a version token equal to the current version, and the
  repository returns metadata. If one of the values of its \<open>If-None-Match\<close> header is
  the version identifier, the answer is 304, the only header is \<open>ETag\<close> with the
  version identifier, the body is empty, and \<open>GetDatastream\<close> is not called.
\<close>

theorem if_none_match_is_304:
  assumes "Method r = ''GET''" and "authAllows dh r"
    and "GetDatastreamInfo (Fedora dh) (requestPid dh r) (Ds dh) = Inr dsinfo"
    and "pathComponents (URL_Path r) = [a] \<or>
         (\<exists>b. pathComponents (URL_Path r) = [a, b] \<and> Versioned dh \<and>
              Atoi b = Some (currentVersion dsinfo) \<and> 0 \<le> currentVersion dsinfo)"
    and "Header r ''If-None-Match'' = Some etags" and "VersionID dsinfo \<in> set etags"
  shows "statusOf (ServeHTTP dh r) = Some 304 \<and>
         headerOf (ServeHTTP dh r) = [''Etag'' \<mapsto> [VersionID dsinfo]] \<and>
         Header_Get (headerOf (ServeHTTP dh r)) ''ETag'' = VersionID dsinfo \<and>
         bodyOf (ServeHTTP dh r) = [] \<and>
         filter isContentFetch (callsOf (ServeHTTP dh r)) = []"
proof -
  let ?pid = "requestPid dh r"
  let ?cs = "case Auth dh of None \<Rightarrow> [] | Some _ \<Rightarrow> [CheckCall ?pid]"
  have "\<exists>v. (v < 0 \<or> v = currentVersion dsinfo) \<and>
          ServeHTTP dh r = Inr (ServeHTTP_info dh r ?pid v newResponseWriter ?cs)"
  proof (rule disjE [OF assms(4)])
    assume "pathComponents (URL_Path r) = [a]"
    then have "ServeHTTP dh r = Inr (ServeHTTP_info dh r ?pid (-1) newResponseWriter ?cs)"
      using assms(1,2) by (simp add: ServeHTTP_allowed ServeHTTP_version_one)
    then show ?thesis by (intro exI [of _ "-1"]) simp
  next
    assume "\<exists>b. pathComponents (URL_Path r) = [a, b] \<and> Versioned dh \<and>
              Atoi b = Some (currentVersion dsinfo) \<and> 0 \<le> currentVersion dsinfo"
    then have "ServeHTTP dh r =
        Inr (ServeHTTP_info dh r ?pid (currentVersion dsinfo) newResponseWriter ?cs)"
      using assms(1,2) by (auto simp: ServeHTTP_allowed ServeHTTP_version_two)
    then show ?thesis by (intro exI [of _ "currentVersion dsinfo"]) simp
  qed
  then obtain v where v: "v < 0 \<or> v = currentVersion dsinfo"
    and serve: "ServeHTTP dh r = Inr (ServeHTTP_info dh r ?pid v newResponseWriter ?cs)"
    by blast
  have "ServeHTTP_info dh r ?pid v newResponseWriter ?cs =
      \<lparr>resp = \<lparr>header = [''Etag'' \<mapsto> [VersionID dsinfo]], status = Some 304, written = []\<rparr>,
       calls = ?cs @ [GetDatastreamInfoCall ?pid (Ds dh)]\<rparr>"
    using assms(3,5,6) v by (simp add: ServeHTTP_info_current not_modified_new)
  then show ?thesis
    by (simp add: serve statusOf_def headerOf_def bodyOf_def callsOf_def Header_Get_def
        canonical_keys isContentFetch_def split: option.split)
qed

theorem if_none_match_is_304_witness:
  "Method (exGetIfNoneMatch ''/abc123'' [''other.1'', ''abc123.3'']) = ''GET'' \<and>
   authAllows exHandler (exGetIfNoneMatch ''/abc123'' [''other.1'', ''abc123.3'']) \<and>
   GetDatastreamInfo (Fedora exHandler)
     (requestPid exHandler (exGetIfNoneMatch ''/abc123'' [''other.1'', ''abc123.3'']))
     (Ds exHandler) = Inr exInfo \<and>
   pathComponents (URL_Path (exGetIfNoneMatch ''/abc123'' [''other.1'', ''abc123.3''])) = [''abc123''] \<and>
   Header (exGetIfNoneMatch ''/abc123'' [''other.1'', ''abc123.3'']) ''If-None-Match'' =
     Some [''other.1'', ''abc123.3''] \<and>
   VersionID exInfo = ''abc123.3'' \<and>
   statusOf (ServeHTTP exHandler (exGetIfNoneMatch ''/abc123'' [''other.1'', ''abc123.3''])) = Some 304 \<and>
   Header_Get (headerOf (ServeHTTP exHandler (exGetIfNoneMatch ''/abc123'' [''other.1'', ''abc123.3''])))
     ''ETag'' = ''abc123.3'' \<and>
   bodyOf (ServeHTTP exHandler (exGetIfNoneMatch ''/abc123'' [''other.1'', ''abc123.3''])) = [] \<and>
   filter isContentFetch
     (callsOf (ServeHTTP exHandler (exGetIfNoneMatch ''/abc123'' [''other.1'', ''abc123.3'']))) = []"
proof -
  let ?r = "exGetIfNoneMatch ''/abc123'' [''other.1'', ''abc123.3'']"
  have m: "Method ?r = ''GET''" by (simp add: exGetIfNoneMatch_def)
  have al: "authAllows exHandler ?r" by (simp add: authAllows_def exHandler_def)
  have c: "pathComponents (URL_Path ?r) = [''abc123'']"
    by (simp add: exGetIfNoneMatch_def eval_path)
  have p: "requestPid exHandler ?r = ''vecnet:abc123''"
    by (simp add: requestPid_def c exHandler_def)
  have i: "GetDatastreamInfo (Fedora exHandler) (requestPid exHandler ?r) (Ds exHandler) = Inr exInfo"
    unfolding p by (simp add: exHandler_def exFedora_def exGetDatastreamInfo_def)
  have h: "Header ?r ''If-None-Match'' = Some [''other.1'', ''abc123.3'']"
    by (simp add: exGetIfNoneMatch_def)
  have e: "VersionID exInfo = ''abc123.3''" by (simp add: exInfo_def)
  have ine: "VersionID exInfo \<in> set [''other.1'', ''abc123.3'']" by (simp add: e)
  show ?thesis
    using if_none_match_is_304 [OF m al i _ h ine, of "''abc123''"]
    by (auto simp: m al i c h e)
qed

section \<open>The content response\<close>

text \<open>
  C8. When the answer is 200, the repository returned metadata and content for the
  request's identifier, and the response headers are exactly these six: the content
  type and the content length of the content descriptor, the content disposition
  \<open>inline\<close> with the metadata's label as the quoted file name, the transfer encoding
  \<open>binary\<close>, the cache control \<open>private\<close>, and the \<open>ETag\<close> (stored under its
  canonical name \<open>Etag\<close>) with the metadata's version identifier. The body is the
  content.
\<close>

theorem success_headers:
  assumes "statusOf (ServeHTTP dh r) = Some 200"
  shows "\<exists>dsinfo content info.
           GetDatastreamInfo (Fedora dh) (requestPid dh r) (Ds dh) = Inr dsinfo \<and>
           GetDatastream (Fedora dh) (requestPid dh r) (Ds dh) = Inr (content, info) \<and>
           headerOf (ServeHTTP dh r) =
             [''Content-Type'' \<mapsto> [Type info],
              ''Content-Length'' \<mapsto> [Length info],
              ''Content-Disposition'' \<mapsto>
                 [''inline; filename='' @ [CHR 0x22] @ Label dsinfo @ [CHR 0x22]],
              ''Content-Transfer-Encoding'' \<mapsto> [''binary''],
              ''Cache-Control'' \<mapsto> [''private''],
              ''Etag'' \<mapsto> [VersionID dsinfo]] \<and>
           Header_Get (headerOf (ServeHTTP dh r)) ''ETag'' = VersionID dsinfo \<and>
           bodyOf (ServeHTTP dh r) = content"
proof -
  let ?pid = "requestPid dh r"
  let ?cs = "case Auth dh of None \<Rightarrow> [] | Some _ \<Rightarrow> [CheckCall ?pid]"
  let ?c = "pathComponents (URL_Path r)"
  have "Method r = ''GET''" and "authAllows dh r"
    using status_200_reaches_version [OF assms] by simp_all
  then have s1: "ServeHTTP dh r = Inr (ServeHTTP_version dh r ?c ?pid newResponseWriter ?cs)"
    by (rule ServeHTTP_allowed)
  with assms have "status (resp (ServeHTTP_version dh r ?c ?pid newResponseWriter ?cs)) = Some 200"
    by (simp add: statusOf_def)
  from status_200_version [OF this] obtain v
    where s2: "ServeHTTP_version dh r ?c ?pid newResponseWriter ?cs =
                 ServeHTTP_info dh r ?pid v newResponseWriter ?cs" ..
  with s1 assms have "status (resp (ServeHTTP_info dh r ?pid v newResponseWriter ?cs)) = Some 200"
    by (simp add: statusOf_def)
  from status_200_info [OF this] obtain dsinfo
    where i: "GetDatastreamInfo (Fedora dh) ?pid (Ds dh) = Inr dsinfo"
      and s3: "ServeHTTP_info dh r ?pid v newResponseWriter ?cs =
                 ServeHTTP_content dh ?pid dsinfo newResponseWriter
                   (?cs @ [GetDatastreamInfoCall ?pid (Ds dh)])"
    by blast
  have s: "ServeHTTP dh r = Inr (ServeHTTP_content dh ?pid dsinfo newResponseWriter
                   (?cs @ [GetDatastreamInfoCall ?pid (Ds dh)]))"
    by (simp add: s1 s2 s3)
  with assms obtain content info
    where c: "GetDatastream (Fedora dh) ?pid (Ds dh) = Inr (content, info)"
    by (cases "GetDatastream (Fedora dh) ?pid (Ds dh)")
       (auto simp: statusOf_def ServeHTTP_content_new split: if_splits)
  show ?thesis
    using i c
    by (intro exI [of _ dsinfo] exI [of _ content] exI [of _ info])
       (simp add: s ServeHTTP_content_new headerOf_def bodyOf_def Header_Get_def canonical_keys)
qed

theorem success_headers_witness:
  "statusOf (ServeHTTP exHandler (exGet ''/abc123'')) = Some 200 \<and>
   GetDatastreamInfo (Fedora exHandler) (requestPid exHandler (exGet ''/abc123'')) (Ds exHandler) =
     Inr exInfo \<and>
   GetDatastream (Fedora exHandler) (requestPid exHandler (exGet ''/abc123'')) (Ds exHandler) =
     Inr (''hello'', exContentInfo) \<and>
   headerOf (ServeHTTP exHandler (exGet ''/abc123'')) =
     [''Content-Type'' \<mapsto> [Type exContentInfo],
      ''Content-Length'' \<mapsto> [Length exContentInfo],
      ''Content-Disposition'' \<mapsto>
         [''inline; filename='' @ [CHR 0x22] @ Label exInfo @ [CHR 0x22]],
      ''Content-Transfer-Encoding'' \<mapsto> [''binary''],
      ''Cache-Control'' \<mapsto> [''private''],
      ''Etag'' \<mapsto> [VersionID exInfo]] \<and>
   Header_Get (headerOf (ServeHTTP exHandler (exGet ''/abc123''))) ''ETag'' = VersionID exInfo \<and>
   bodyOf (ServeHTTP exHandler (exGet ''/abc123'')) = ''hello''"
proof -
  have st: "statusOf (ServeHTTP exHandler (exGet ''/abc123'')) = Some 200"
    by (simp add: ServeHTTP_ex_200 statusOf_def)
  have p: "requestPid exHandler (exGet ''/abc123'') = ''vecnet:abc123''"
    by (simp add: requestPid_def eval_path exGet_def exHandler_def)
  have i: "GetDatastreamInfo (Fedora exHandler) ''vecnet:abc123'' (Ds exHandler) = Inr exInfo"
    and c: "GetDatastream (Fedora exHandler) ''vecnet:abc123'' (Ds exHandler) =
              Inr (''hello'', exContentInfo)"
    by (simp_all add: exHandler_def exFedora_def exGetDatastreamInfo_def exGetDatastream_def)
  show ?thesis
    using success_headers [OF st] by (auto simp: st p i c)
qed

section \<open>Installing the configured handlers\<close>

text \<open>
  C9. Processing one entry of the configuration, whatever the table built so far: the
  port of the entry has a multiplexer afterwards; a handler with no segment identifier
  is its default handler; a handler with the identifier \<open>default\<close> is its default
  handler, and \<open>default\<close> is not registered as a segment (its binding is what it was
  before); every other identifier of the entry is registered with the handler.
\<close>

theorem default_or_registered:
  "runHandlers_entry fedora auth portHandlers (k, v) (Port v) \<noteq> None \<and>
   (Datastream_id v = [] \<longrightarrow>
      DefaultHandler (portMux (runHandlers_entry fedora auth portHandlers (k, v)) (Port v)) =
        Some (HandlerFunc k (configuredHandler fedora auth v))) \<and>
   (''default'' \<in> set (Datastream_id v) \<longrightarrow>
      DefaultHandler (portMux (runHandlers_entry fedora auth portHandlers (k, v)) (Port v)) =
        Some (HandlerFunc k (configuredHandler fedora auth v))) \<and>
   registered (portMux (runHandlers_entry fedora auth portHandlers (k, v)) (Port v)) ''default'' =
     registered (portMux portHandlers (Port v)) ''default'' \<and>
   (\<forall>name. name \<in> set (Datastream_id v) \<and> name \<noteq> ''default'' \<longrightarrow>
      registered (portMux (runHandlers_entry fedora auth portHandlers (k, v)) (Port v)) name =
        Some (HandlerFunc k (configuredHandler fedora auth v)))"
  by (simp add: runHandlers_entry_port portMux_def installHandler_default installHandler_registered)

theorem default_or_registered_witness:
  "Datastream_id (exConfig\<lparr>Datastream_id := []\<rparr>) = [] \<and>
   DefaultHandler (portMux (runHandlers_entry exFedora exAllow Map.empty
       (''files'', exConfig\<lparr>Datastream_id := []\<rparr>)) ''8080'') =
     Some (HandlerFunc ''files'' (configuredHandler exFedora exAllow (exConfig\<lparr>Datastream_id := []\<rparr>))) \<and>
   ''default'' \<in> set (Datastream_id exConfig) \<and>
   DefaultHandler (portMux (runHandlers_entry exFedora exAllow Map.empty (''files'', exConfig)) ''8080'') =
     Some (HandlerFunc ''files'' (configuredHandler exFedora exAllow exConfig)) \<and>
   registered (portMux (runHandlers_entry exFedora exAllow Map.empty (''files'', exConfig)) ''8080'')
     ''default'' = None \<and>
   ''content'' \<in> set (Datastream_id exConfig) \<and>
   registered (portMux (runHandlers_entry exFedora exAllow Map.empty (''files'', exConfig)) ''8080'')
     ''content'' = Some (HandlerFunc ''files'' (configuredHandler exFedora exAllow exConfig))"
proof -
  have p: "Port exConfig = ''8080''" "Port (exConfig\<lparr>Datastream_id := []\<rparr>) = ''8080''"
    and d: "Datastream_id exConfig = [''default'', ''content'']"
    by (simp_all add: exConfig_def)
  have e: "registered (portMux Map.empty ''8080'') ''default'' = None"
    by (simp add: portMux_def newDsidMux_def)
  show ?thesis
    using default_or_registered [of exFedora exAllow Map.empty "''files''" exConfig]
      default_or_registered [of exFedora exAllow Map.empty "''files''" "exConfig\<lparr>Datastream_id := []\<rparr>"]
    by (simp add: p d e)
qed

end
